theory Spec2Isabelle
  imports
    Complex_Main
    "HOL-Library.Char_ord"
    "HOL-Library.List_Lexorder"
    "HOL-Library.Sublist"
begin

section \<open>Crop Yield Predictor: a shallow embedding of app.py\<close>

text \<open>
  The program is a Streamlit page: it loads a pickled predictor, collects nine field
  parameters in a form, builds a one-row pandas table from them and asks the predictor
  for a yield. Everything the page does beyond computing values is made explicit here:
  Python exceptions are values of a sum type, the predictor is a state-passing function,
  and pandas tables live in a store of objects, because \<open>encode_if_needed\<close> returns
  either its argument itself or a fresh copy.
\<close>

subsection \<open>Python exceptions\<close>

text \<open>
  An exception is its class name and the text \<open>str(e)\<close>. Only subclasses of
  \<open>Exception\<close> are represented: these are what \<open>except Exception\<close> catches.
\<close>

datatype exn = Exc (exc_class: string) (exc_str: string)

subsection \<open>Model Loader\<close>

text \<open>
  \<open>pickle_load\<close> stands for \<open>with open(model_path, "rb") as f: pickle.load(f)\<close> and
  \<open>joblib_load\<close> for \<open>joblib.load(model_path)\<close>. Both run in a world \<open>'w\<close> (the file
  system and whatever unpickling executes) that they may change; the order of the two
  attempts is the order in which the world is threaded through them.
\<close>

type_synonym ('w, 'a) loader = "'w \<Rightarrow> string \<Rightarrow> 'w \<times> (exn + 'a)"

definition load_model ::
  "('w, 'a) loader \<Rightarrow> ('w, 'a) loader \<Rightarrow> 'w \<Rightarrow> string \<Rightarrow> 'w \<times> (exn + 'a)" where
  "load_model pickle_load joblib_load w model_path =
     (case pickle_load w model_path of
        (w1, Inr handle) \<Rightarrow> (w1, Inr handle)
      | (w1, Inl pickle_error) \<Rightarrow>
          (case joblib_load w1 model_path of
             (w2, Inr handle) \<Rightarrow> (w2, Inr handle)
           | (w2, Inl joblib_error) \<Rightarrow>
               (w2, Inl (Exc ''RuntimeError''
                  (''Unable to load model. Tried pickle and joblib. '' @
                   ''Pickle error: '' @ exc_str pickle_error @
                   ''. Joblib error: '' @ exc_str joblib_error)))))"

text \<open>
  The decorator \<open>st.cache_resource\<close>: a table from the argument to the object returned.
  A hit returns the stored object without running the function; a miss runs it and
  stores what it returns; an exception is not stored.
\<close>

definition cache_resource ::
  "('w \<Rightarrow> 'k \<Rightarrow> 'w \<times> (exn + 'a)) \<Rightarrow> ('k \<rightharpoonup> 'a) \<Rightarrow> 'w \<Rightarrow> 'k
     \<Rightarrow> ('k \<rightharpoonup> 'a) \<times> 'w \<times> (exn + 'a)" where
  "cache_resource f cache w k =
     (case cache k of
        Some v \<Rightarrow> (cache, w, Inr v)
      | None \<Rightarrow>
          (case f w k of
             (w', Inr v) \<Rightarrow> (cache(k \<mapsto> v), w', Inr v)
           | (w', Inl e) \<Rightarrow> (cache, w', Inl e)))"



subsection \<open>pandas tables\<close>

text \<open>
  A column is a typed list of cells, one per row; a table is its columns in order, by
  name (column names are distinct in every table the page builds). The dtypes are the
  ones the page can meet: \<open>object\<close> holding Python strings (what pandas infers for
  \<open>str\<close> cells, and what the test \<open>dtype == object\<close> of \<open>encode_if_needed\<close> looks
  for), \<open>float64\<close>, \<open>bool\<close>, and the signed integers \<open>int8\<close> to \<open>int64\<close>, written
  \<open>IntCol\<close> with the width in bits. A float is a real number here: floats are only
  carried and compared with bounds, never computed with.
\<close>

datatype column =
    ObjectCol "string list"
  | Float64Col "real list"
  | BoolCol "bool list"
  | IntCol nat "int list"

type_synonym dataframe = "(string \<times> column) list"

datatype dtype = Object | Float64 | Bool | IntN nat

fun dtype_of :: "column \<Rightarrow> dtype" where
  "dtype_of (ObjectCol ss) = Object"
| "dtype_of (Float64Col xs) = Float64"
| "dtype_of (BoolCol bs) = Bool"
| "dtype_of (IntCol w ns) = IntN w"

fun nrows :: "column \<Rightarrow> nat" where
  "nrows (ObjectCol ss) = length ss"
| "nrows (Float64Col xs) = length xs"
| "nrows (BoolCol bs) = length bs"
| "nrows (IntCol w ns) = length ns"

text \<open>Integer and floating dtypes are the numeric ones; \<open>object\<close> and \<open>bool\<close> are not.\<close>

fun is_numeric :: "column \<Rightarrow> bool" where
  "is_numeric (ObjectCol ss) = False"
| "is_numeric (Float64Col xs) = True"
| "is_numeric (BoolCol bs) = False"
| "is_numeric (IntCol w ns) = True"

text \<open>
  \<open>pd.DataFrame([data])\<close> for a dict \<open>data\<close> of scalars: one row, the columns in the
  dict's insertion order, each dtype inferred from the Python value.
\<close>

datatype pyval = PyStr string | PyFloat real | PyBool bool | PyInt int

fun column_of :: "pyval \<Rightarrow> column" where
  "column_of (PyStr s) = ObjectCol [s]"
| "column_of (PyFloat x) = Float64Col [x]"
| "column_of (PyBool b) = BoolCol [b]"
| "column_of (PyInt i) = IntCol 64 [i]"

definition DataFrame :: "(string \<times> pyval) list \<Rightarrow> dataframe" where
  "DataFrame data = map (\<lambda>(k, v). (k, column_of v)) data"

text \<open>\<open>df[col]\<close> raises \<open>KeyError\<close> for a missing column; \<open>str\<close> of it is the quoted name.\<close>

definition get_col :: "dataframe \<Rightarrow> string \<Rightarrow> exn + column" where
  "get_col df col =
     (case map_of df col of
        None \<Rightarrow> Inl (Exc ''KeyError'' ([CHR 0x27] @ col @ [CHR 0x27]))
      | Some c \<Rightarrow> Inr c)"

text \<open>\<open>df[col] = c\<close> replaces the column in place, or appends a new one at the end.\<close>

definition set_col :: "string \<Rightarrow> column \<Rightarrow> dataframe \<Rightarrow> dataframe" where
  "set_col col c df =
     (if col \<in> set (map fst df)
      then map (\<lambda>(k, old). if k = col then (k, c) else (k, old)) df
      else df @ [(col, c)])"

text \<open>
  \<open>s.astype("category").cat.codes\<close>: the categories are the distinct values of the
  column itself, sorted (strings compare lexicographically, character by character);
  the code of a cell is the position of its value among them. The codes have the
  smallest of the dtypes \<open>int8\<close>, \<open>int16\<close>, \<open>int32\<close>, \<open>int64\<close> that pandas picks from the
  number of categories.
\<close>

definition categories :: "string list \<Rightarrow> string list" where
  "categories ss = sort (remdups ss)"

fun index_of :: "'a \<Rightarrow> 'a list \<Rightarrow> nat" where
  "index_of x [] = 0"
| "index_of x (y # ys) = (if x = y then 0 else Suc (index_of x ys))"

definition codes_width :: "nat \<Rightarrow> nat" where
  "codes_width n =
     (if n < 127 then 8 else if n < 32767 then 16 else if n < 2147483647 then 32 else 64)"

definition cat_codes :: "string list \<Rightarrow> column" where
  "cat_codes ss =
     (let cats = categories ss
      in IntCol (codes_width (length cats)) (map (\<lambda>s. int (index_of s cats)) ss))"

text \<open>
  \<open>s.astype(int)\<close>: \<open>True\<close> is 1 and \<open>False\<close> is 0, an integer column is widened to
  \<open>int64\<close>, a float is truncated towards zero. On an \<open>object\<close> column pandas parses each
  string with \<open>int()\<close>; \<open>encode_if_needed\<close> never asks for that, since its loop has
  replaced every \<open>object\<close> column before the two casts, and the model raises there.
\<close>

fun astype_int :: "column \<Rightarrow> exn + column" where
  "astype_int (BoolCol bs) = Inr (IntCol 64 (map (\<lambda>b. if b then 1 else 0) bs))"
| "astype_int (IntCol w ns) = Inr (IntCol 64 ns)"
| "astype_int (Float64Col xs) =
     Inr (IntCol 64 (map (\<lambda>x. if 0 \<le> x then \<lfloor>x\<rfloor> else \<lceil>x\<rceil>) xs))"
| "astype_int (ObjectCol ss) = Inl (Exc ''ValueError'' ''invalid literal for int() with base 10'')"

subsection \<open>The store of tables and the predictor\<close>

text \<open>
  A table is a mutable object: the store is the list of the tables allocated so far and
  a reference is an index into it. \<open>df.copy()\<close> allocates a new table with the same
  contents.
\<close>

type_synonym heap = "dataframe list"
type_synonym addr = nat

definition copy_df :: "heap \<Rightarrow> addr \<Rightarrow> heap \<times> addr" where
  "copy_df h df = (h @ [h ! df], length h)"

text \<open>
  The predictor is opaque: \<open>predict\<close> takes the predictor's own state and the table it is
  handed, and gives back its new state, the table as it leaves it (a predictor may
  write into its argument) and either an exception or the predictions. It reaches no
  other table: the page hands it no other reference.
\<close>

type_synonym 'm predictor = "'m \<Rightarrow> dataframe \<Rightarrow> 'm \<times> dataframe \<times> (exn + real list)"

definition call_predict ::
  "'m predictor \<Rightarrow> 'm \<Rightarrow> heap \<Rightarrow> addr \<Rightarrow> 'm \<times> heap \<times> (exn + real list)" where
  "call_predict predict m h df =
     (case predict m (h ! df) of (m', df', r) \<Rightarrow> (m', h[df := df'], r))"

subsection \<open>Form Collector\<close>

text \<open>
  What the user has done to each widget: \<open>None\<close> is an untouched widget, which returns
  its default (\<open>index\<close>, \<open>value\<close>); \<open>Some\<close> is the committed choice, an index into the
  options of a select box or the number typed into a number input.
\<close>

record widget_state =
  region_w :: "nat option"
  soil_type_w :: "nat option"
  crop_w :: "nat option"
  weather_condition_w :: "nat option"
  rainfall_mm_w :: "real option"
  temperature_c_w :: "real option"
  days_to_harvest_w :: "int option"
  fertilizer_used_w :: "nat option"
  irrigation_used_w :: "nat option"
  submit_w :: bool

text \<open>
  \<open>st.selectbox(label, options, index)\<close> returns the option chosen and
  \<open>st.number_input(label, min_value, max_value, value, step)\<close> a number between
  \<open>min_value\<close> and \<open>max_value\<close>: Streamlit does not commit a choice outside the options
  or a number outside the range, and raises on one. Labels and \<open>step\<close> change only what
  is drawn.
\<close>

definition selectbox :: "string list \<Rightarrow> nat \<Rightarrow> nat option \<Rightarrow> exn + string" where
  "selectbox options index w =
     (let i = (case w of None \<Rightarrow> index | Some j \<Rightarrow> j)
      in if i < length options then Inr (options ! i)
         else Inl (Exc ''StreamlitAPIException'' ''index out of range''))"

definition number_input :: "'a::linorder \<Rightarrow> 'a \<Rightarrow> 'a \<Rightarrow> 'a option \<Rightarrow> exn + 'a" where
  "number_input min_value max_value val w =
     (let v = (case w of None \<Rightarrow> val | Some u \<Rightarrow> u)
      in if min_value \<le> v \<and> v \<le> max_value then Inr v
         else Inl (Exc ''StreamlitAPIException'' ''value out of range''))"

definition region_options :: "string list" where
  "region_options = [''North'', ''East'', ''South'', ''West'']"

definition soil_type_options :: "string list" where
  "soil_type_options = [''Clay'', ''Sandy'', ''Loam'', ''Silt'', ''Peaty'', ''Chalky'']"

definition crop_options :: "string list" where
  "crop_options = [''Wheat'', ''Rice'', ''Maize'', ''Barley'', ''Soybean'', ''Cotton'']"

definition weather_condition_options :: "string list" where
  "weather_condition_options = [''Sunny'', ''Rainy'', ''Cloudy'']"

definition yes_no_options :: "string list" where
  "yes_no_options = [''Yes'', ''No'']"

text \<open>The dict \<open>data\<close> of \<open>build_input_form\<close>, in the order its keys are written.\<close>

definition data ::
  "string \<Rightarrow> string \<Rightarrow> string \<Rightarrow> real \<Rightarrow> real \<Rightarrow> string \<Rightarrow> string \<Rightarrow> string \<Rightarrow> int
     \<Rightarrow> (string \<times> pyval) list" where
  "data region soil_type crop rainfall_mm temperature_c fertilizer_used irrigation_used
        weather_condition days_to_harvest =
     [(''Region'', PyStr region),
      (''Soil_Type'', PyStr soil_type),
      (''Crop'', PyStr crop),
      (''Rainfall_mm'', PyFloat rainfall_mm),
      (''Temperature_Celsius'', PyFloat temperature_c),
      (''Fertilizer_Used'', PyBool (fertilizer_used = ''Yes'')),
      (''Irrigation_Used'', PyBool (irrigation_used = ''Yes'')),
      (''Weather_Condition'', PyStr weather_condition),
      (''Days_to_Harvest'', PyInt days_to_harvest)]"

text \<open>Sequencing of calls that may raise: the first exception ends the function.\<close>

definition then_do :: "exn + 'a \<Rightarrow> ('a \<Rightarrow> exn + 'b) \<Rightarrow> exn + 'b" where
  "then_do r f = (case r of Inl e \<Rightarrow> Inl e | Inr x \<Rightarrow> f x)"

definition build_input_form :: "widget_state \<Rightarrow> exn + (bool \<times> dataframe)" where
  "build_input_form ws =
     then_do (selectbox region_options 0 (region_w ws)) (\<lambda>region.
     then_do (selectbox soil_type_options 0 (soil_type_w ws)) (\<lambda>soil_type.
     then_do (selectbox crop_options 0 (crop_w ws)) (\<lambda>crop.
     then_do (selectbox weather_condition_options 0 (weather_condition_w ws)) (\<lambda>weather_condition.
     then_do (number_input 0 5000 800 (rainfall_mm_w ws)) (\<lambda>rainfall_mm.
     then_do (number_input (- 20) 60 25 (temperature_c_w ws)) (\<lambda>temperature_c.
     then_do (number_input 30 400 120 (days_to_harvest_w ws)) (\<lambda>days_to_harvest.
     then_do (selectbox yes_no_options 0 (fertilizer_used_w ws)) (\<lambda>fertilizer_used.
     then_do (selectbox yes_no_options 0 (irrigation_used_w ws)) (\<lambda>irrigation_used.
       Inr (submit_w ws,
            DataFrame (data region soil_type crop rainfall_mm temperature_c fertilizer_used
                         irrigation_used weather_condition days_to_harvest)))))))))))"

text \<open>
  Valid widget inputs: every committed choice is one of the widget's options and every
  committed number lies in the widget's range.
\<close>

definition in_options :: "string list \<Rightarrow> nat option \<Rightarrow> bool" where
  "in_options options w = (case w of None \<Rightarrow> True | Some i \<Rightarrow> i < length options)"

definition in_range :: "'a::linorder \<Rightarrow> 'a \<Rightarrow> 'a option \<Rightarrow> bool" where
  "in_range lo hi w = (case w of None \<Rightarrow> True | Some v \<Rightarrow> lo \<le> v \<and> v \<le> hi)"

definition valid_inputs :: "widget_state \<Rightarrow> bool" where
  "valid_inputs ws \<longleftrightarrow>
     in_options region_options (region_w ws) \<and>
     in_options soil_type_options (soil_type_w ws) \<and>
     in_options crop_options (crop_w ws) \<and>
     in_options weather_condition_options (weather_condition_w ws) \<and>
     in_range 0 5000 (rainfall_mm_w ws) \<and>
     in_range (- 20) 60 (temperature_c_w ws) \<and>
     in_range 30 400 (days_to_harvest_w ws) \<and>
     in_options yes_no_options (fertilizer_used_w ws) \<and>
     in_options yes_no_options (irrigation_used_w ws)"

subsection \<open>Prediction Adapter\<close>

text \<open>
  The loop \<open>for col in encoded.columns\<close>: the names are those the copy had when the loop
  began; each \<open>object\<close> column met is replaced by its category codes.
\<close>

fun encode_loop :: "string list \<Rightarrow> dataframe \<Rightarrow> dataframe" where
  "encode_loop [] encoded = encoded"
| "encode_loop (col # cols) encoded =
     encode_loop cols
       (case map_of encoded col of
          Some (ObjectCol ss) \<Rightarrow> set_col col (cat_codes ss) encoded
        | _ \<Rightarrow> encoded)"

text \<open>\<open>encoded[col] = encoded[col].astype(int)\<close>.\<close>

definition cast_flag :: "string \<Rightarrow> dataframe \<Rightarrow> exn + dataframe" where
  "cast_flag col encoded =
     then_do (get_col encoded col) (\<lambda>c.
     then_do (astype_int c) (\<lambda>c'.
       Inr (set_col col c' encoded)))"

text \<open>
  The body of the \<open>except\<close> branch, on the contents of the copy \<open>encoded\<close>: the table
  as the branch leaves it, and the exception that ended it, if any.
\<close>

definition fallback_encoding :: "dataframe \<Rightarrow> dataframe \<times> exn option" where
  "fallback_encoding encoded0 =
     (let encoded1 = encode_loop (map fst encoded0) encoded0 in
      case cast_flag ''Fertilizer_Used'' encoded1 of
        Inl e \<Rightarrow> (encoded1, Some e)
      | Inr encoded2 \<Rightarrow>
          (case cast_flag ''Irrigation_Used'' encoded2 of
             Inl e \<Rightarrow> (encoded2, Some e)
           | Inr encoded3 \<Rightarrow> (encoded3, None)))"

text \<open>
  \<open>encode_if_needed(model, df)\<close>: the predictor is tried on a copy of \<open>df\<close>. If it
  returns, the result is the reference \<open>df\<close> itself. If it raises, a second copy of
  \<open>df\<close> is encoded in place and its reference is the result; an exception raised while
  encoding leaves the function.
\<close>

definition encode_if_needed ::
  "'m predictor \<Rightarrow> 'm \<Rightarrow> heap \<Rightarrow> addr \<Rightarrow> 'm \<times> heap \<times> (exn + addr)" where
  "encode_if_needed predict m h df =
     (case copy_df h df of (h1, tmp) \<Rightarrow>
      case call_predict predict m h1 tmp of
        (m1, h2, Inr _) \<Rightarrow> (m1, h2, Inr df)
      | (m1, h2, Inl _) \<Rightarrow>
          (case copy_df h2 df of (h3, encoded) \<Rightarrow>
           case fallback_encoding (h3 ! encoded) of
             (enc, Some e) \<Rightarrow> (m1, h3[encoded := enc], Inl e)
           | (enc, None) \<Rightarrow> (m1, h3[encoded := enc], Inr encoded)))"

subsection \<open>The submission\<close>

text \<open>
  What the page shows: \<open>st.success\<close> with the yield (the number, before it is formatted
  to three decimals), \<open>st.dataframe\<close> with a table, \<open>st.exception\<close> with the exception
  object, \<open>st.error\<close> with a text.
\<close>

datatype ui = Success real | ShowDataframe dataframe | ShowException exn | Error string

definition prediction_failed_hint :: string where
  "prediction_failed_hint =
     ''Prediction failed. If your model does not include preprocessing, '' @
     ''please upload a Pipeline or share the expected preprocessing so we can align inputs.''"

text \<open>\<open>pred[0]\<close> on an empty array of predictions.\<close>

definition index_error :: exn where
  "index_error = Exc ''IndexError'' ''index 0 is out of bounds for axis 0 with size 0''"

text \<open>
  The block \<open>if submitted:\<close> of \<open>main\<close>. Any exception inside the \<open>try\<close> (from the
  encoding, from the second \<open>predict\<close>, from \<open>pred[0]\<close> on an empty result) ends it in the
  \<open>except\<close> branch, which shows the exception and the hint.
\<close>

definition main_submitted ::
  "'m predictor \<Rightarrow> 'm \<Rightarrow> heap \<Rightarrow> addr \<Rightarrow> 'm \<times> heap \<times> ui list" where
  "main_submitted predict m h input_df =
     (case encode_if_needed predict m h input_df of
        (m1, h1, Inl e) \<Rightarrow> (m1, h1, [ShowException e, Error prediction_failed_hint])
      | (m1, h1, Inr df_for_model) \<Rightarrow>
          (case call_predict predict m1 h1 df_for_model of
             (m2, h2, Inl e) \<Rightarrow> (m2, h2, [ShowException e, Error prediction_failed_hint])
           | (m2, h2, Inr []) \<Rightarrow>
               (m2, h2, [ShowException index_error, Error prediction_failed_hint])
           | (m2, h2, Inr (yield_value # _)) \<Rightarrow>
               (m2, h2, [Success yield_value,
                         ShowDataframe (h2 ! input_df),
                         ShowDataframe (h2 ! df_for_model)])))"

subsection \<open>Sample predictors and inputs\<close>

text \<open>
  Three predictors whose state counts the calls made to them: one that accepts any
  table, one that accepts only tables without an \<open>object\<close> column, one that accepts none.
\<close>

definition accepting_model :: "nat predictor" where
  "accepting_model m df = (Suc m, df, Inr [3.5])"

definition numeric_only_model :: "nat predictor" where
  "numeric_only_model m df =
     (Suc m, df,
      if list_all (\<lambda>(k, c). dtype_of c \<noteq> Object) df then Inr [4.25]
      else Inl (Exc ''ValueError'' ''could not convert string to float''))"

definition rejecting_model :: "nat predictor" where
  "rejecting_model m df = (Suc m, df, Inl (Exc ''ValueError'' ''feature names mismatch''))"

text \<open>
  A predictor that accepts every table and writes into the table it is handed: it
  replaces the Region column.
\<close>

definition overwriting_model :: "nat predictor" where
  "overwriting_model m df =
     (Suc m, set_col ''Region'' (ObjectCol [''overwritten'']) df, Inr [3.5])"

definition untouched_form :: widget_state where
  "untouched_form =
     \<lparr>region_w = None, soil_type_w = None, crop_w = None, weather_condition_w = None,
      rainfall_mm_w = None, temperature_c_w = None, days_to_harvest_w = None,
      fertilizer_used_w = None, irrigation_used_w = None, submit_w = True\<rparr>"

definition scenario_form :: widget_state where
  "scenario_form =
     \<lparr>region_w = Some 0, soil_type_w = Some 2, crop_w = Some 0, weather_condition_w = Some 0,
      rainfall_mm_w = Some 800, temperature_c_w = Some 25, days_to_harvest_w = Some 120,
      fertilizer_used_w = Some 0, irrigation_used_w = Some 0, submit_w = True\<rparr>"

definition scenario_df :: dataframe where
  "scenario_df =
     DataFrame (data ''North'' ''Loam'' ''Wheat'' 800 25 ''Yes'' ''Yes'' ''Sunny'' 120)"

definition other_df :: dataframe where
  "other_df = DataFrame (data ''South'' ''Clay'' ''Rice'' 800 25 ''Yes'' ''Yes'' ''Rainy'' 120)"

text \<open>The scenario's record after the fallback encoding.\<close>

definition scenario_encoded :: dataframe where
  "scenario_encoded =
     [(''Region'', IntCol 8 [0]),
      (''Soil_Type'', IntCol 8 [0]),
      (''Crop'', IntCol 8 [0]),
      (''Rainfall_mm'', Float64Col [800]),
      (''Temperature_Celsius'', Float64Col [25]),
      (''Fertilizer_Used'', IntCol 64 [1]),
      (''Irrigation_Used'', IntCol 64 [1]),
      (''Weather_Condition'', IntCol 8 [0]),
      (''Days_to_Harvest'', IntCol 64 [120])]"

text \<open>The scenario's record after \<open>overwriting_model\<close> has been handed it.\<close>

definition overwritten_df :: dataframe where
  "overwritten_df =
     DataFrame (data ''overwritten'' ''Loam'' ''Wheat'' 800 25 ''Yes'' ''Yes'' ''Sunny'' 120)"



section \<open>Properties\<close>

subsection \<open>Model Loader\<close>



text \<open>Under \<open>st.cache_resource\<close> a miss runs \<open>load_model\<close> and a hit returns the stored handle.\<close>

lemma cache_resource_miss:
  "cache p = None \<Longrightarrow>
     cache_resource (load_model pickle_load joblib_load) cache w p =
       (case load_model pickle_load joblib_load w p of
          (w', Inr v) \<Rightarrow> (cache(p \<mapsto> v), w', Inr v)
        | (w', Inl e) \<Rightarrow> (cache, w', Inl e))"
  by (simp add: cache_resource_def)

lemma cache_resource_hit:
  "cache p = Some v \<Longrightarrow>
     cache_resource (load_model pickle_load joblib_load) cache w p = (cache, w, Inr v)"
  by (simp add: cache_resource_def)

subsection \<open>Form Collector\<close>

lemma then_do_Inr_iff: "then_do r f = Inr y \<longleftrightarrow> (\<exists>x. r = Inr x \<and> f x = Inr y)"
  by (cases r) (simp_all add: then_do_def)

lemma then_do_Inr [simp]: "then_do (Inr x) f = f x"
  by (simp add: then_do_def)

lemma then_do_Inl [simp]: "then_do (Inl e) f = Inl e"
  by (simp add: then_do_def)

lemma selectbox_Inr_in_options: "selectbox options index w = Inr s \<Longrightarrow> s \<in> set options"
  by (auto simp: selectbox_def Let_def split: if_splits)

lemma selectbox_valid:
  "in_options options w \<Longrightarrow> options \<noteq> [] \<Longrightarrow> \<exists>s. selectbox options 0 w = Inr s"
  by (cases w) (simp_all add: selectbox_def in_options_def)

lemma number_input_Inr_in_range:
  "number_input lo hi val w = Inr x \<Longrightarrow> lo \<le> x \<and> x \<le> hi"
  by (auto simp: number_input_def Let_def split: if_splits)

lemma number_input_valid:
  "in_range lo hi w \<Longrightarrow> lo \<le> val \<Longrightarrow> val \<le> hi \<Longrightarrow> \<exists>x. number_input lo hi val w = Inr x"
  by (cases w) (simp_all add: number_input_def in_range_def)

lemma DataFrame_data:
  "DataFrame (data region soil_type crop rainfall_mm temperature_c fertilizer_used
                irrigation_used weather_condition days_to_harvest) =
     [(''Region'', ObjectCol [region]),
      (''Soil_Type'', ObjectCol [soil_type]),
      (''Crop'', ObjectCol [crop]),
      (''Rainfall_mm'', Float64Col [rainfall_mm]),
      (''Temperature_Celsius'', Float64Col [temperature_c]),
      (''Fertilizer_Used'', BoolCol [fertilizer_used = ''Yes'']),
      (''Irrigation_Used'', BoolCol [irrigation_used = ''Yes'']),
      (''Weather_Condition'', ObjectCol [weather_condition]),
      (''Days_to_Harvest'', IntCol 64 [days_to_harvest])]"
  by (simp add: DataFrame_def data_def)

lemma build_input_form_Inr:
  assumes "build_input_form ws = Inr (submitted, df)"
  shows "\<exists>region soil_type crop weather_condition rainfall_mm temperature_c days_to_harvest
            fertilizer_used irrigation_used.
           selectbox region_options 0 (region_w ws) = Inr region \<and>
           selectbox soil_type_options 0 (soil_type_w ws) = Inr soil_type \<and>
           selectbox crop_options 0 (crop_w ws) = Inr crop \<and>
           selectbox weather_condition_options 0 (weather_condition_w ws) = Inr weather_condition \<and>
           number_input 0 5000 800 (rainfall_mm_w ws) = Inr rainfall_mm \<and>
           number_input (- 20) 60 25 (temperature_c_w ws) = Inr temperature_c \<and>
           number_input 30 400 120 (days_to_harvest_w ws) = Inr days_to_harvest \<and>
           selectbox yes_no_options 0 (fertilizer_used_w ws) = Inr fertilizer_used \<and>
           selectbox yes_no_options 0 (irrigation_used_w ws) = Inr irrigation_used \<and>
           submitted = submit_w ws \<and>
           df = DataFrame (data region soil_type crop rainfall_mm temperature_c fertilizer_used
                             irrigation_used weather_condition days_to_harvest)"
  using assms unfolding build_input_form_def then_do_Inr_iff by blast

lemma build_scenario: "build_input_form scenario_form = Inr (True, scenario_df)"
  by (simp add: build_input_form_def scenario_form_def scenario_df_def selectbox_def
        number_input_def region_options_def soil_type_options_def crop_options_def
        weather_condition_options_def yes_no_options_def)

text \<open>An untouched form submits the defaults of every widget.\<close>

lemma build_untouched:
  "build_input_form untouched_form =
     Inr (True, DataFrame (data ''North'' ''Clay'' ''Wheat'' 800 25 ''Yes'' ''Yes'' ''Sunny'' 120))"
  by (simp add: build_input_form_def untouched_form_def selectbox_def number_input_def
        region_options_def soil_type_options_def crop_options_def
        weather_condition_options_def yes_no_options_def)

text \<open>
  C7. For every combination of valid widget inputs \<open>build_input_form\<close> returns a record,
  with the submit flag, that has exactly the nine documented columns in the documented
  order, each holding exactly one value (none is missing), typed as documented: strings
  (dtype \<open>object\<close>) for Region, Soil_Type, Crop and Weather_Condition, floats for
  Rainfall_mm and Temperature_Celsius, booleans for Fertilizer_Used and Irrigation_Used,
  a 64-bit integer for Days_to_Harvest.
\<close>

theorem build_input_form_nine_typed_fields:
  assumes "valid_inputs ws"
  shows "\<exists>df. build_input_form ws = Inr (submit_w ws, df) \<and>
           map fst df =
             [''Region'', ''Soil_Type'', ''Crop'', ''Rainfall_mm'', ''Temperature_Celsius'',
              ''Fertilizer_Used'', ''Irrigation_Used'', ''Weather_Condition'',
              ''Days_to_Harvest''] \<and>
           map (dtype_of \<circ> snd) df =
             [Object, Object, Object, Float64, Float64, Bool, Bool, Object, IntN 64] \<and>
           map (nrows \<circ> snd) df = [1, 1, 1, 1, 1, 1, 1, 1, 1]"
proof -
  from assms obtain region where region: "selectbox region_options 0 (region_w ws) = Inr region"
    using selectbox_valid [of region_options "region_w ws"]
    by (auto simp: valid_inputs_def region_options_def)
  from assms obtain soil_type where
    soil_type: "selectbox soil_type_options 0 (soil_type_w ws) = Inr soil_type"
    using selectbox_valid [of soil_type_options "soil_type_w ws"]
    by (auto simp: valid_inputs_def soil_type_options_def)
  from assms obtain crop where crop: "selectbox crop_options 0 (crop_w ws) = Inr crop"
    using selectbox_valid [of crop_options "crop_w ws"]
    by (auto simp: valid_inputs_def crop_options_def)
  from assms obtain weather_condition where
    weather_condition:
      "selectbox weather_condition_options 0 (weather_condition_w ws) = Inr weather_condition"
    using selectbox_valid [of weather_condition_options "weather_condition_w ws"]
    by (auto simp: valid_inputs_def weather_condition_options_def)
  from assms obtain rainfall_mm :: real where
    rainfall_mm: "number_input 0 5000 800 (rainfall_mm_w ws) = Inr rainfall_mm"
    using number_input_valid [of 0 5000 "rainfall_mm_w ws" 800]
    by (auto simp: valid_inputs_def)
  from assms obtain temperature_c :: real where
    temperature_c: "number_input (- 20) 60 25 (temperature_c_w ws) = Inr temperature_c"
    using number_input_valid [of "- 20" 60 "temperature_c_w ws" 25]
    by (auto simp: valid_inputs_def)
  from assms obtain days_to_harvest :: int where
    days_to_harvest: "number_input 30 400 120 (days_to_harvest_w ws) = Inr days_to_harvest"
    using number_input_valid [of 30 400 "days_to_harvest_w ws" 120]
    by (auto simp: valid_inputs_def)
  from assms obtain fertilizer_used where
    fertilizer_used: "selectbox yes_no_options 0 (fertilizer_used_w ws) = Inr fertilizer_used"
    using selectbox_valid [of yes_no_options "fertilizer_used_w ws"]
    by (auto simp: valid_inputs_def yes_no_options_def)
  from assms obtain irrigation_used where
    irrigation_used: "selectbox yes_no_options 0 (irrigation_used_w ws) = Inr irrigation_used"
    using selectbox_valid [of yes_no_options "irrigation_used_w ws"]
    by (auto simp: valid_inputs_def yes_no_options_def)
  have "build_input_form ws =
          Inr (submit_w ws,
               DataFrame (data region soil_type crop rainfall_mm temperature_c fertilizer_used
                            irrigation_used weather_condition days_to_harvest))"
    unfolding build_input_form_def
    by (simp add: region soil_type crop weather_condition rainfall_mm temperature_c
          days_to_harvest fertilizer_used irrigation_used)
  then show ?thesis
    by (simp add: DataFrame_data)
qed

text \<open>C7 on the scenario's form, where every widget holds a committed valid input.\<close>

theorem build_input_form_nine_typed_fields_witness:
  "valid_inputs scenario_form \<and>
   (\<exists>df. build_input_form scenario_form = Inr (True, df) \<and>
      map fst df =
        [''Region'', ''Soil_Type'', ''Crop'', ''Rainfall_mm'', ''Temperature_Celsius'',
         ''Fertilizer_Used'', ''Irrigation_Used'', ''Weather_Condition'',
         ''Days_to_Harvest''] \<and>
      map (dtype_of \<circ> snd) df =
        [Object, Object, Object, Float64, Float64, Bool, Bool, Object, IntN 64] \<and>
      map (nrows \<circ> snd) df = [1, 1, 1, 1, 1, 1, 1, 1, 1])"
proof -
  have valid: "valid_inputs scenario_form"
    by (simp add: valid_inputs_def scenario_form_def in_options_def in_range_def
          region_options_def soil_type_options_def crop_options_def
          weather_condition_options_def yes_no_options_def)
  have "submit_w scenario_form = True"
    by (simp add: scenario_form_def)
  with valid build_input_form_nine_typed_fields [OF valid] show ?thesis
    by simp
qed

text \<open>
  C8. Every record \<open>build_input_form\<close> produces has its Region among the 4 region
  options, its Soil_Type among the 6 soil options, its Crop among the 6 crop options and
  its Weather_Condition among the 3 weather options, and has Rainfall_mm in [0, 5000],
  Temperature_Celsius in [-20, 60] and Days_to_Harvest in [30, 400].
\<close>

theorem build_input_form_invariant:
  assumes "build_input_form ws = Inr (submitted, df)"
  shows "\<exists>region soil_type crop rainfall_mm temperature_c fertilizer_used irrigation_used
            weather_condition days_to_harvest.
           df = [(''Region'', ObjectCol [region]),
                 (''Soil_Type'', ObjectCol [soil_type]),
                 (''Crop'', ObjectCol [crop]),
                 (''Rainfall_mm'', Float64Col [rainfall_mm]),
                 (''Temperature_Celsius'', Float64Col [temperature_c]),
                 (''Fertilizer_Used'', BoolCol [fertilizer_used]),
                 (''Irrigation_Used'', BoolCol [irrigation_used]),
                 (''Weather_Condition'', ObjectCol [weather_condition]),
                 (''Days_to_Harvest'', IntCol 64 [days_to_harvest])] \<and>
           region \<in> set region_options \<and> card (set region_options) = 4 \<and>
           soil_type \<in> set soil_type_options \<and> card (set soil_type_options) = 6 \<and>
           crop \<in> set crop_options \<and> card (set crop_options) = 6 \<and>
           weather_condition \<in> set weather_condition_options \<and>
           card (set weather_condition_options) = 3 \<and>
           0 \<le> rainfall_mm \<and> rainfall_mm \<le> 5000 \<and>
           - 20 \<le> temperature_c \<and> temperature_c \<le> 60 \<and>
           30 \<le> days_to_harvest \<and> days_to_harvest \<le> 400"
proof -
  from build_input_form_Inr [OF assms]
  obtain region soil_type crop weather_condition rainfall_mm temperature_c days_to_harvest
    fertilizer_used irrigation_used
    where region: "selectbox region_options 0 (region_w ws) = Inr region"
      and soil_type: "selectbox soil_type_options 0 (soil_type_w ws) = Inr soil_type"
      and crop: "selectbox crop_options 0 (crop_w ws) = Inr crop"
      and weather_condition:
        "selectbox weather_condition_options 0 (weather_condition_w ws) = Inr weather_condition"
      and rainfall_mm: "number_input 0 5000 800 (rainfall_mm_w ws) = Inr rainfall_mm"
      and temperature_c: "number_input (- 20) 60 25 (temperature_c_w ws) = Inr temperature_c"
      and days_to_harvest: "number_input 30 400 120 (days_to_harvest_w ws) = Inr days_to_harvest"
      and df: "df = DataFrame (data region soil_type crop rainfall_mm temperature_c
                                 fertilizer_used irrigation_used weather_condition
                                 days_to_harvest)"
    by blast
  have cards: "card (set region_options) = 4" "card (set soil_type_options) = 6"
    "card (set crop_options) = 6" "card (set weather_condition_options) = 3"
    by (simp_all add: region_options_def soil_type_options_def crop_options_def
          weather_condition_options_def)
  from region soil_type crop weather_condition
  have enums: "region \<in> set region_options" "soil_type \<in> set soil_type_options"
    "crop \<in> set crop_options" "weather_condition \<in> set weather_condition_options"
    by (blast dest: selectbox_Inr_in_options)+
  from rainfall_mm temperature_c days_to_harvest
  have ranges: "0 \<le> rainfall_mm \<and> rainfall_mm \<le> 5000"
    "- 20 \<le> temperature_c \<and> temperature_c \<le> 60"
    "30 \<le> days_to_harvest \<and> days_to_harvest \<le> 400"
    by (blast dest: number_input_Inr_in_range)+
  from df cards enums ranges show ?thesis
    unfolding DataFrame_data by blast
qed

text \<open>C8 on the record of the scenario.\<close>

theorem build_input_form_invariant_witness:
  "build_input_form scenario_form = Inr (True, scenario_df) \<and>
   (\<exists>region soil_type crop rainfall_mm temperature_c fertilizer_used irrigation_used
       weather_condition days_to_harvest.
      scenario_df = [(''Region'', ObjectCol [region]),
                     (''Soil_Type'', ObjectCol [soil_type]),
                     (''Crop'', ObjectCol [crop]),
                     (''Rainfall_mm'', Float64Col [rainfall_mm]),
                     (''Temperature_Celsius'', Float64Col [temperature_c]),
                     (''Fertilizer_Used'', BoolCol [fertilizer_used]),
                     (''Irrigation_Used'', BoolCol [irrigation_used]),
                     (''Weather_Condition'', ObjectCol [weather_condition]),
                     (''Days_to_Harvest'', IntCol 64 [days_to_harvest])] \<and>
      region \<in> set region_options \<and> card (set region_options) = 4 \<and>
      soil_type \<in> set soil_type_options \<and> card (set soil_type_options) = 6 \<and>
      crop \<in> set crop_options \<and> card (set crop_options) = 6 \<and>
      weather_condition \<in> set weather_condition_options \<and>
      card (set weather_condition_options) = 3 \<and>
      0 \<le> rainfall_mm \<and> rainfall_mm \<le> 5000 \<and>
      - 20 \<le> temperature_c \<and> temperature_c \<le> 60 \<and>
      30 \<le> days_to_harvest \<and> days_to_harvest \<le> 400)"
proof -
  have built: "build_input_form scenario_form = Inr (True, scenario_df)"
    by (rule build_scenario)
  from build_input_form_invariant [OF built] built show ?thesis
    by (intro conjI)
qed

text \<open>
  C9. For Region North, Soil Type Loam, Crop Wheat, Weather Condition Sunny, rainfall
  800.0, temperature 25.0, 120 days to harvest and "Yes" chosen for both Fertilizer Used
  and Irrigation Used, the record holds Fertilizer_Used and Irrigation_Used as the
  boolean \<open>True\<close> and Days_to_Harvest as the integer 120.
\<close>

theorem scenario_flags_and_days:
  "build_input_form scenario_form = Inr (True, scenario_df) \<and>
   map_of scenario_df ''Fertilizer_Used'' = Some (BoolCol [True]) \<and>
   map_of scenario_df ''Irrigation_Used'' = Some (BoolCol [True]) \<and>
   map_of scenario_df ''Days_to_Harvest'' = Some (IntCol 64 [120])"
  by (simp add: build_scenario) (simp add: scenario_df_def DataFrame_data)

subsection \<open>Tables and the store\<close>

lemma map_of_replace_other:
  "k \<noteq> col \<Longrightarrow>
     map_of (map (\<lambda>(k, old). if k = col then (k, c) else (k, old)) df) k = map_of df k"
  by (induction df) auto

lemma map_of_replace_same:
  "col \<in> set (map fst df) \<Longrightarrow>
     map_of (map (\<lambda>(k, old). if k = col then (k, c) else (k, old)) df) col = Some c"
  by (induction df) auto

lemma map_of_set_col: "map_of (set_col col c df) = (map_of df)(col \<mapsto> c)"
proof (cases "col \<in> set (map fst df)")
  case True
  then show ?thesis
    by (auto simp: set_col_def fun_eq_iff map_of_replace_other map_of_replace_same
          simp del: set_map)
next
  case False
  then have "map_of df col = None"
    by (simp add: map_of_eq_None_iff)
  with False show ?thesis
    by (auto simp: set_col_def map_add_def fun_eq_iff split: option.splits)
qed

lemma map_of_encode_loop:
  "map_of (encode_loop cols encoded) k =
     (case map_of encoded k of
        Some (ObjectCol ss) \<Rightarrow> Some (if k \<in> set cols then cat_codes ss else ObjectCol ss)
      | r \<Rightarrow> r)"
proof (induction cols arbitrary: encoded)
  case Nil
  then show ?case
    by (simp split: option.splits column.splits)
next
  case (Cons col cols)
  show ?case
    by (auto simp: Cons.IH map_of_set_col cat_codes_def Let_def
          split: option.splits column.splits)
qed

text \<open>After the loop no column is of dtype \<open>object\<close>, so neither cast meets one.\<close>

lemma encode_loop_no_object:
  "map_of (encode_loop (map fst df) df) k \<noteq> Some (ObjectCol ss)"
proof (cases "map_of df k")
  case None
  then show ?thesis
    by (simp add: map_of_encode_loop)
next
  case (Some c)
  then have "k \<in> set (map fst df)"
    by (metis map_of_eq_None_iff option.distinct(1) set_map)
  with Some show ?thesis
    by (cases c) (simp_all add: map_of_encode_loop cat_codes_def Let_def)
qed

lemma cast_flag_BoolCol:
  assumes "map_of encoded col = Some (BoolCol bs)"
  shows "\<exists>encoded'. cast_flag col encoded = Inr encoded' \<and>
           map_of encoded' =
             (map_of encoded)(col \<mapsto> IntCol 64 (map (\<lambda>b. if b then 1 else 0) bs))"
  using assms by (simp add: cast_flag_def get_col_def map_of_set_col)

lemma index_of_nth: "x \<in> set xs \<Longrightarrow> index_of x xs < length xs \<and> xs ! index_of x xs = x"
  by (induction xs) auto

lemma categories_sorted_distinct:
  "sorted (categories ss) \<and> distinct (categories ss) \<and> set (categories ss) = set ss"
  by (simp add: categories_def)

lemma cat_codes_single: "cat_codes [s] = IntCol 8 [0]"
  by (simp add: cat_codes_def categories_def codes_width_def)

text \<open>On a column of several rows the codes tell the categories apart.\<close>

lemma cat_codes_three_rows: "cat_codes [''North'', ''East'', ''North''] = IntCol 8 [1, 0, 1]"
  by (simp add: cat_codes_def categories_def codes_width_def)

lemma cat_codes_position:
  assumes "i < length ss"
  shows "\<exists>w codes. cat_codes ss = IntCol w codes \<and> length codes = length ss \<and>
           0 \<le> codes ! i \<and> nat (codes ! i) < length (categories ss) \<and>
           categories ss ! nat (codes ! i) = ss ! i"
proof -
  from assms have "ss ! i \<in> set (categories ss)"
    by (simp add: categories_sorted_distinct)
  from index_of_nth [OF this] assms show ?thesis
    by (simp add: cat_codes_def Let_def)
qed

lemma call_predict_last:
  "call_predict predict m (h @ [x]) (length h) =
     (case predict m x of (m', x', r) \<Rightarrow> (m', h @ [x'], r))"
  by (simp add: call_predict_def)

subsection \<open>Prediction Adapter\<close>

lemma encode_if_needed_direct:
  assumes "df < length h" and "predict m (h ! df) = (m1, t, Inr ys)"
  shows "encode_if_needed predict m h df = (m1, h @ [t], Inr df)"
  using assms by (simp add: encode_if_needed_def copy_df_def call_predict_last)

lemma encode_if_needed_fallback:
  assumes "df < length h" and "predict m (h ! df) = (m1, t, Inl e)"
  shows "encode_if_needed predict m h df =
           (case fallback_encoding (h ! df) of
              (enc, Some e') \<Rightarrow> (m1, h @ [t, enc], Inl e')
            | (enc, None) \<Rightarrow> (m1, h @ [t, enc], Inr (Suc (length h))))"
proof -
  have "(h @ [t]) ! df = h ! df"
    using assms(1) by (simp add: nth_append)
  moreover have "(h @ [t, x]) ! Suc (length h) = x" for x
    by (simp add: nth_append)
  moreover have "(h @ [t, x])[Suc (length h) := y] = h @ [t, y]" for x y
    by (simp add: list_update_append)
  ultimately show ?thesis
    using assms(2)
    by (simp add: encode_if_needed_def copy_df_def call_predict_last
          split: prod.splits option.splits)
qed

lemma fallback_encoding_record:
  "fallback_encoding
     (DataFrame (data region soil_type crop rainfall_mm temperature_c fertilizer_used
                   irrigation_used weather_condition days_to_harvest)) =
     ([(''Region'', IntCol 8 [0]),
       (''Soil_Type'', IntCol 8 [0]),
       (''Crop'', IntCol 8 [0]),
       (''Rainfall_mm'', Float64Col [rainfall_mm]),
       (''Temperature_Celsius'', Float64Col [temperature_c]),
       (''Fertilizer_Used'', IntCol 64 [if fertilizer_used = ''Yes'' then 1 else 0]),
       (''Irrigation_Used'', IntCol 64 [if irrigation_used = ''Yes'' then 1 else 0]),
       (''Weather_Condition'', IntCol 8 [0]),
       (''Days_to_Harvest'', IntCol 64 [days_to_harvest])],
      None)"
  by (simp add: DataFrame_data fallback_encoding_def cast_flag_def get_col_def set_col_def
        cat_codes_single)

lemma fallback_encoding_flags:
  assumes "map_of df ''Fertilizer_Used'' = Some (BoolCol fs)"
    and "map_of df ''Irrigation_Used'' = Some (BoolCol gs)"
  shows "\<exists>enc. fallback_encoding df = (enc, None) \<and>
           (\<forall>k ss. map_of df k = Some (ObjectCol ss) \<longrightarrow> map_of enc k = Some (cat_codes ss))"
proof -
  let ?enc1 = "encode_loop (map fst df) df"
  have loop: "map_of ?enc1 k =
      (case map_of df k of
         Some (ObjectCol ss) \<Rightarrow> Some (if k \<in> set (map fst df) then cat_codes ss else ObjectCol ss)
       | r \<Rightarrow> r)" for k
    by (rule map_of_encode_loop)
  have obj: "map_of ?enc1 k = Some (cat_codes ss)" if "map_of df k = Some (ObjectCol ss)" for k ss
  proof -
    from that have "k \<in> set (map fst df)"
      by (metis map_of_eq_None_iff option.distinct(1) set_map)
    with that show ?thesis
      by (simp add: loop)
  qed
  have "map_of ?enc1 ''Fertilizer_Used'' = Some (BoolCol fs)"
    using assms(1) by (simp add: loop)
  from cast_flag_BoolCol [OF this] obtain enc2 where
    enc2: "cast_flag ''Fertilizer_Used'' ?enc1 = Inr enc2"
    and map2: "map_of enc2 =
      (map_of ?enc1)(''Fertilizer_Used'' \<mapsto> IntCol 64 (map (\<lambda>b. if b then 1 else 0) fs))"
    by blast
  have "map_of enc2 ''Irrigation_Used'' = Some (BoolCol gs)"
    using assms(2) by (simp add: map2 loop)
  from cast_flag_BoolCol [OF this] obtain enc3 where
    enc3: "cast_flag ''Irrigation_Used'' enc2 = Inr enc3"
    and map3: "map_of enc3 =
      (map_of enc2)(''Irrigation_Used'' \<mapsto> IntCol 64 (map (\<lambda>b. if b then 1 else 0) gs))"
    by blast
  have res: "fallback_encoding df = (enc3, None)"
    by (simp add: fallback_encoding_def Let_def enc2 enc3)
  have "map_of enc3 k = Some (cat_codes ss)" if "map_of df k = Some (ObjectCol ss)" for k ss
  proof -
    from that assms have "k \<noteq> ''Fertilizer_Used''" "k \<noteq> ''Irrigation_Used''"
      by auto
    then show ?thesis
      using obj [OF that] by (simp add: map3 map2)
  qed
  with res show ?thesis
    by blast
qed

lemma rejecting_scenario:
  "rejecting_model 0 ([scenario_df] ! 0) =
     (1, scenario_df, Inl (Exc ''ValueError'' ''feature names mismatch''))"
  by (simp add: rejecting_model_def)

lemma fallback_encoding_scenario: "fallback_encoding scenario_df = (scenario_encoded, None)"
  by (simp add: scenario_df_def scenario_encoded_def fallback_encoding_record)

lemma main_submitted_fallback:
  assumes "df < length h"
    and "predict m (h ! df) = (m1, t, Inl e1)"
    and "fallback_encoding (h ! df) = (enc, None)"
    and "predict m1 enc = (m2, enc', r)"
  shows "main_submitted predict m h df =
           (m2, h @ [t, enc'],
            case r of
              Inl e \<Rightarrow> [ShowException e, Error prediction_failed_hint]
            | Inr [] \<Rightarrow> [ShowException index_error, Error prediction_failed_hint]
            | Inr (yield_value # _) \<Rightarrow>
                [Success yield_value, ShowDataframe (h ! df), ShowDataframe enc'])"
proof -
  have enc_call: "encode_if_needed predict m h df = (m1, (h @ [t]) @ [enc], Inr (length (h @ [t])))"
    using encode_if_needed_fallback [where predict = predict and m = m, OF assms(1) assms(2)]
    by (simp add: assms(3))
  have "call_predict predict m1 ((h @ [t]) @ [enc]) (length (h @ [t])) = (m2, (h @ [t]) @ [enc'], r)"
    unfolding call_predict_last by (simp add: assms(4))
  moreover have "((h @ [t]) @ [enc']) ! df = h ! df"
    using assms(1) by (simp add: nth_append)
  moreover have "((h @ [t]) @ [enc']) ! length (h @ [t]) = enc'"
    by (simp only: nth_append_length)
  ultimately show ?thesis
    unfolding main_submitted_def enc_call
    by (simp split: sum.splits list.splits)
qed

lemma main_submitted_direct:
  assumes "df < length h"
    and "predict m (h ! df) = (m1, t, Inr ys)"
    and "predict m1 (h ! df) = (m2, d, r)"
  shows "main_submitted predict m h df =
           (m2, h[df := d] @ [t],
            case r of
              Inl e \<Rightarrow> [ShowException e, Error prediction_failed_hint]
            | Inr [] \<Rightarrow> [ShowException index_error, Error prediction_failed_hint]
            | Inr (yield_value # _) \<Rightarrow>
                [Success yield_value, ShowDataframe d, ShowDataframe d])"
proof -
  have enc_call: "encode_if_needed predict m h df = (m1, h @ [t], Inr df)"
    using encode_if_needed_direct [where predict = predict and m = m, OF assms(1) assms(2)] .
  have "call_predict predict m1 (h @ [t]) df = (m2, h[df := d] @ [t], r)"
    using assms(1) by (simp add: call_predict_def nth_append assms(3) list_update_append)
  moreover have "(h[df := d] @ [t]) ! df = d"
    using assms(1) by (simp add: nth_append)
  ultimately show ?thesis
    unfolding main_submitted_def enc_call
    by (simp split: sum.splits list.splits)
qed

text \<open>
  C1. For every one-row record of the form's nine fields, if \<open>predict\<close> raises on the raw
  record, \<open>encode_if_needed\<close> returns a new record in which Region, Soil_Type, Crop and
  Weather_Condition (the \<open>object\<close> columns) hold an integer code, Fertilizer_Used and
  Irrigation_Used hold the integers 1 or 0, and the other columns are as they were: every
  column of the returned record is numeric.
\<close>

theorem encode_if_needed_all_numeric:
  assumes "df < length h"
    and "h ! df = DataFrame (data region soil_type crop rainfall_mm temperature_c
                               fertilizer_used irrigation_used weather_condition
                               days_to_harvest)"
    and "predict m (h ! df) = (m1, t, Inl e)"
  shows "\<exists>enc. encode_if_needed predict m h df = (m1, h @ [t, enc], Inr (Suc (length h))) \<and>
           enc = [(''Region'', IntCol 8 [0]),
                  (''Soil_Type'', IntCol 8 [0]),
                  (''Crop'', IntCol 8 [0]),
                  (''Rainfall_mm'', Float64Col [rainfall_mm]),
                  (''Temperature_Celsius'', Float64Col [temperature_c]),
                  (''Fertilizer_Used'', IntCol 64 [if fertilizer_used = ''Yes'' then 1 else 0]),
                  (''Irrigation_Used'', IntCol 64 [if irrigation_used = ''Yes'' then 1 else 0]),
                  (''Weather_Condition'', IntCol 8 [0]),
                  (''Days_to_Harvest'', IntCol 64 [days_to_harvest])] \<and>
           list_all (is_numeric \<circ> snd) enc"
  using encode_if_needed_fallback [where predict = predict and m = m, OF assms(1) assms(3)]
  by (simp add: assms(2) fallback_encoding_record)

text \<open>C1 on the scenario's record, with a predictor that rejects every table.\<close>

theorem encode_if_needed_all_numeric_witness:
  "encode_if_needed rejecting_model 0 [scenario_df] 0 =
     (1, [scenario_df, scenario_df, scenario_encoded], Inr 2) \<and>
   list_all (is_numeric \<circ> snd) scenario_encoded"
  using encode_if_needed_all_numeric
    [of 0 "[scenario_df]" "''North''" "''Loam''" "''Wheat''" 800 25 "''Yes''" "''Yes''"
        "''Sunny''" 120 rejecting_model 0 1 scenario_df
        "Exc ''ValueError'' ''feature names mismatch''"]
  by (simp add: rejecting_model_def scenario_df_def scenario_encoded_def)

text \<open>
  C3. For every predictor and record, if \<open>predict\<close> returns on the raw record,
  \<open>encode_if_needed\<close> returns the reference it was given and the record behind it is as
  it was. The fallback encoding is not applied: the only table allocated is the copy
  handed to \<open>predict\<close>, and the predictor was called once.
\<close>

theorem encode_if_needed_direct_returns_input:
  assumes "df < length h" and "predict m (h ! df) = (m1, t, Inr ys)"
  shows "encode_if_needed predict m h df = (m1, h @ [t], Inr df) \<and> (h @ [t]) ! df = h ! df"
  using encode_if_needed_direct [where predict = predict and m = m, OF assms] assms(1)
  by (simp add: nth_append)

text \<open>C3 on the scenario's record, with a predictor that accepts every table.\<close>

theorem encode_if_needed_direct_returns_input_witness:
  "encode_if_needed accepting_model 0 [scenario_df] 0 = (1, [scenario_df, scenario_df], Inr 0) \<and>
   [scenario_df, scenario_df] ! 0 = scenario_df"
  using encode_if_needed_direct_returns_input
    [of 0 "[scenario_df]" accepting_model 0 1 scenario_df "[3.5]"]
  by (simp add: accepting_model_def)

text \<open>
  C4, as stated, fails when the field's values are read as the options of the field: for
  the scenario's record the fallback encoding gives Region the code 0, while North is at
  position 1 among the sorted Region options East, North, South, West.
\<close>

theorem region_code_is_not_position_in_options:
  "snd (snd (encode_if_needed rejecting_model 0 [scenario_df] 0)) = Inr 2 \<and>
   map_of (fst (snd (encode_if_needed rejecting_model 0 [scenario_df] 0)) ! 2) ''Region''
     = Some (IntCol 8 [0]) \<and>
   index_of ''North'' (sort region_options) = 1 \<and>
   map_of (fst (snd (encode_if_needed rejecting_model 0 [scenario_df] 0)) ! 2) ''Region''
     \<noteq> Some (IntCol 8 [int (index_of ''North'' (sort region_options))])"
proof -
  have "encode_if_needed rejecting_model 0 [scenario_df] 0 =
          (1, [scenario_df, scenario_df, scenario_encoded], Inr 2)"
    using encode_if_needed_fallback
      [where predict = rejecting_model and m = 0 and h = "[scenario_df]" and df = 0,
       OF _ rejecting_scenario]
    by (simp add: fallback_encoding_scenario)
  moreover have "sort region_options = [''East'', ''North'', ''South'', ''West'']"
    by (simp add: region_options_def)
  ultimately show ?thesis
    by (simp add: scenario_encoded_def)
qed

text \<open>
  C4, amended. When the fallback encoding runs, the code of a cell of an \<open>object\<close> column
  is the position of the cell's string in the lexically sorted list of the distinct
  values present in that column of the table being encoded (not in the list of the
  field's options); a column of one row, as every column of a form record is, gets the
  code 0.
\<close>

theorem cat_codes_position_in_column:
  assumes "df < length h"
    and "predict m (h ! df) = (m1, t, Inl e)"
    and "map_of (h ! df) ''Fertilizer_Used'' = Some (BoolCol fs)"
    and "map_of (h ! df) ''Irrigation_Used'' = Some (BoolCol gs)"
    and "map_of (h ! df) col = Some (ObjectCol ss)"
    and "i < length ss"
  shows "\<exists>enc w codes.
           encode_if_needed predict m h df = (m1, h @ [t, enc], Inr (Suc (length h))) \<and>
           map_of enc col = Some (IntCol w codes) \<and> length codes = length ss \<and>
           sorted (categories ss) \<and> distinct (categories ss) \<and> set (categories ss) = set ss \<and>
           0 \<le> codes ! i \<and> nat (codes ! i) < length (categories ss) \<and>
           categories ss ! nat (codes ! i) = ss ! i \<and>
           (length ss = 1 \<longrightarrow> codes = [0])"
proof -
  from fallback_encoding_flags [OF assms(3) assms(4)] assms(5)
  obtain enc where enc: "fallback_encoding (h ! df) = (enc, None)"
    and col: "map_of enc col = Some (cat_codes ss)"
    by blast
  from cat_codes_position [OF assms(6)]
  obtain w codes where codes: "cat_codes ss = IntCol w codes" "length codes = length ss"
    "0 \<le> codes ! i" "nat (codes ! i) < length (categories ss)"
    "categories ss ! nat (codes ! i) = ss ! i"
    by blast
  have one: "codes = [0]" if "length ss = 1"
  proof -
    from that obtain s where "ss = [s]"
      by (cases ss) auto
    with codes(1) show ?thesis
      by (simp add: cat_codes_single)
  qed
  have "encode_if_needed predict m h df = (m1, h @ [t, enc], Inr (Suc (length h)))"
    using encode_if_needed_fallback [where predict = predict and m = m, OF assms(1) assms(2)]
    by (simp add: enc)
  with col codes one categories_sorted_distinct [of ss] show ?thesis
    by auto
qed

text \<open>The amended C4 on the Region column of the scenario's record.\<close>

theorem cat_codes_position_in_column_witness:
  "map_of scenario_df ''Region'' = Some (ObjectCol [''North'']) \<and>
   (\<exists>enc w codes.
      encode_if_needed rejecting_model 0 [scenario_df] 0
        = (1, [scenario_df, scenario_df, enc], Inr 2) \<and>
      map_of enc ''Region'' = Some (IntCol w codes) \<and>
      categories [''North''] ! nat (codes ! 0) = ''North'' \<and> codes = [0])"
proof -
  have cols: "map_of ([scenario_df] ! 0) ''Fertilizer_Used'' = Some (BoolCol [True])"
    "map_of ([scenario_df] ! 0) ''Irrigation_Used'' = Some (BoolCol [True])"
    "map_of ([scenario_df] ! 0) ''Region'' = Some (ObjectCol [''North''])"
    by (simp_all add: scenario_df_def DataFrame_data)
  have "\<exists>enc w codes.
          encode_if_needed rejecting_model 0 [scenario_df] 0
            = (1, [scenario_df] @ [scenario_df, enc], Inr (Suc (length [scenario_df]))) \<and>
          map_of enc ''Region'' = Some (IntCol w codes) \<and>
          length codes = length [''North''] \<and>
          sorted (categories [''North'']) \<and> distinct (categories [''North'']) \<and>
          set (categories [''North'']) = set [''North''] \<and>
          0 \<le> codes ! 0 \<and> nat (codes ! 0) < length (categories [''North'']) \<and>
          categories [''North''] ! nat (codes ! 0) = [''North''] ! 0 \<and>
          (length [''North''] = 1 \<longrightarrow> codes = [0])"
    by (rule cat_codes_position_in_column
          [where predict = rejecting_model and m = 0 and h = "[scenario_df]" and df = 0
             and i = 0, OF _ rejecting_scenario cols]) simp_all
  then obtain enc w codes where
    "encode_if_needed rejecting_model 0 [scenario_df] 0
       = (1, [scenario_df] @ [scenario_df, enc], Inr (Suc (length [scenario_df])))"
    "map_of enc ''Region'' = Some (IntCol w codes)"
    "categories [''North''] ! nat (codes ! 0) = [''North''] ! 0"
    "length [''North''] = 1 \<longrightarrow> codes = [0]"
    by blast
  then have "encode_if_needed rejecting_model 0 [scenario_df] 0
               = (1, [scenario_df, scenario_df, enc], Inr 2) \<and>
             map_of enc ''Region'' = Some (IntCol w codes) \<and>
             categories [''North''] ! nat (codes ! 0) = ''North'' \<and> codes = [0]"
    by (simp add: numeral_2_eq_2)
  then have "\<exists>enc w codes.
      encode_if_needed rejecting_model 0 [scenario_df] 0
        = (1, [scenario_df, scenario_df, enc], Inr 2) \<and>
      map_of enc ''Region'' = Some (IntCol w codes) \<and>
      categories [''North''] ! nat (codes ! 0) = ''North'' \<and> codes = [0]"
    by blast
  moreover have "map_of scenario_df ''Region'' = Some (ObjectCol [''North''])"
    using cols(3) by simp
  ultimately show ?thesis
    by (intro conjI)
qed

text \<open>
  C5. For two one-row form records that differ only in Region, Soil_Type, Crop and
  Weather_Condition, on both of which \<open>predict\<close> raises, the fallback encoding yields
  the same encoded record: each of the four categorical columns holds the code 0,
  whichever category was chosen.
\<close>

theorem categorical_choice_not_encoded:
  assumes "df < length h"
    and "h ! df = DataFrame (data region soil_type crop rainfall_mm temperature_c
                               fertilizer_used irrigation_used weather_condition
                               days_to_harvest)"
    and "predict m (h ! df) = (m1, t, Inl e)"
    and "df' < length h'"
    and "h' ! df' = DataFrame (data region' soil_type' crop' rainfall_mm temperature_c
                                 fertilizer_used irrigation_used weather_condition'
                                 days_to_harvest)"
    and "predict m' (h' ! df') = (m1', t', Inl e')"
  shows "\<exists>enc. encode_if_needed predict m h df = (m1, h @ [t, enc], Inr (Suc (length h))) \<and>
           encode_if_needed predict m' h' df' = (m1', h' @ [t', enc], Inr (Suc (length h'))) \<and>
           map_of enc ''Region'' = Some (IntCol 8 [0]) \<and>
           map_of enc ''Soil_Type'' = Some (IntCol 8 [0]) \<and>
           map_of enc ''Crop'' = Some (IntCol 8 [0]) \<and>
           map_of enc ''Weather_Condition'' = Some (IntCol 8 [0])"
  using encode_if_needed_fallback [where predict = predict and m = m, OF assms(1) assms(3)]
    encode_if_needed_fallback [where predict = predict and m = m', OF assms(4) assms(6)]
  by (simp add: assms(2) assms(5) fallback_encoding_record)

text \<open>C5 on two records that differ in all four categorical choices.\<close>

theorem categorical_choice_not_encoded_witness:
  "scenario_df \<noteq> other_df \<and>
   (\<exists>enc. encode_if_needed rejecting_model 0 [scenario_df] 0
            = (1, [scenario_df, scenario_df, enc], Inr 2) \<and>
          encode_if_needed rejecting_model 0 [other_df] 0
            = (1, [other_df, other_df, enc], Inr 2) \<and>
          map_of enc ''Region'' = Some (IntCol 8 [0]) \<and>
          map_of enc ''Soil_Type'' = Some (IntCol 8 [0]) \<and>
          map_of enc ''Crop'' = Some (IntCol 8 [0]) \<and>
          map_of enc ''Weather_Condition'' = Some (IntCol 8 [0]))"
proof -
  have differ: "scenario_df \<noteq> other_df"
    by (simp add: scenario_df_def other_df_def DataFrame_data)
  have one: "[scenario_df] ! 0 =
      DataFrame (data ''North'' ''Loam'' ''Wheat'' 800 25 ''Yes'' ''Yes'' ''Sunny'' 120)"
    by (simp add: scenario_df_def)
  have two: "[other_df] ! 0 =
      DataFrame (data ''South'' ''Clay'' ''Rice'' 800 25 ''Yes'' ''Yes'' ''Rainy'' 120)"
    by (simp add: other_df_def)
  have rejected: "rejecting_model 0 ([other_df] ! 0) =
     (1, other_df, Inl (Exc ''ValueError'' ''feature names mismatch''))"
    by (simp add: rejecting_model_def)
  have "\<exists>enc. encode_if_needed rejecting_model 0 [scenario_df] 0
            = (1, [scenario_df] @ [scenario_df, enc], Inr (Suc (length [scenario_df]))) \<and>
          encode_if_needed rejecting_model 0 [other_df] 0
            = (1, [other_df] @ [other_df, enc], Inr (Suc (length [other_df]))) \<and>
          map_of enc ''Region'' = Some (IntCol 8 [0]) \<and>
          map_of enc ''Soil_Type'' = Some (IntCol 8 [0]) \<and>
          map_of enc ''Crop'' = Some (IntCol 8 [0]) \<and>
          map_of enc ''Weather_Condition'' = Some (IntCol 8 [0])"
    by (rule categorical_choice_not_encoded
          [where predict = rejecting_model and m = 0 and h = "[scenario_df]" and df = 0
             and m' = 0 and h' = "[other_df]" and df' = 0,
           OF _ one rejecting_scenario _ two rejected]) simp_all
  with differ show ?thesis
    by (simp add: numeral_2_eq_2)
qed



text \<open>
  C10, as stated, fails in its last clause for a predictor that writes to the table it
  is handed. \<open>encode_if_needed\<close> itself leaves the submitted record as it was, but on
  the direct path it returns the reference to that very record, \<open>main\<close> hands it to the
  second \<open>predict\<close>, and the table then shown as the input data is the record as the
  predictor left it, not the submission.
\<close>

theorem input_table_shows_what_predict_wrote:
  "fst (snd (encode_if_needed overwriting_model 0 [scenario_df] 0)) ! 0 = scenario_df \<and>
   snd (snd (encode_if_needed overwriting_model 0 [scenario_df] 0)) = Inr 0 \<and>
   snd (snd (main_submitted overwriting_model 0 [scenario_df] 0)) =
     [Success 3.5, ShowDataframe overwritten_df, ShowDataframe overwritten_df] \<and>
   overwritten_df \<noteq> scenario_df"
proof -
  have wrote: "set_col ''Region'' (ObjectCol [''overwritten'']) scenario_df = overwritten_df"
    by (simp add: scenario_df_def overwritten_df_def DataFrame_data set_col_def)
  have first: "overwriting_model 0 ([scenario_df] ! 0) = (1, overwritten_df, Inr [3.5])"
    by (simp add: overwriting_model_def wrote)
  have second: "overwriting_model 1 ([scenario_df] ! 0) = (2, overwritten_df, Inr [3.5])"
    by (simp add: overwriting_model_def wrote)
  have "encode_if_needed overwriting_model 0 [scenario_df] 0 =
          (1, [scenario_df] @ [overwritten_df], Inr 0)"
    by (rule encode_if_needed_direct
          [where predict = overwriting_model and m = 0 and h = "[scenario_df]" and df = 0,
           OF _ first]) simp
  moreover
  have "main_submitted overwriting_model 0 [scenario_df] 0 =
          (2, [scenario_df][0 := overwritten_df] @ [overwritten_df],
           case Inr [3.5] of
             Inl e \<Rightarrow> [ShowException e, Error prediction_failed_hint]
           | Inr [] \<Rightarrow> [ShowException index_error, Error prediction_failed_hint]
           | Inr (yield_value # _) \<Rightarrow>
               [Success yield_value, ShowDataframe overwritten_df,
                ShowDataframe overwritten_df])"
    by (rule main_submitted_direct
          [where predict = overwriting_model and m = 0 and h = "[scenario_df]" and df = 0,
           OF _ first second]) simp
  moreover have "overwritten_df \<noteq> scenario_df"
    by (simp add: scenario_df_def overwritten_df_def DataFrame_data)
  ultimately show ?thesis
    by simp
qed

text \<open>
  C10, amended. \<open>encode_if_needed\<close> does not write to its input: for every predictor,
  every table that existed before the call, the input record among them, is the same
  after it, whether \<open>predict\<close> returned or the fallback encoding ran. When the fallback
  ran, the first table the page shows after the yield is the record as submitted and the
  second the encoded copy as \<open>predict\<close> left it. When \<open>predict\<close> returned directly,
  both tables are the record as submitted provided the second \<open>predict\<close> does not write
  to the record, which is the table it is handed.
\<close>

theorem encode_if_needed_leaves_input:
  assumes "df < length h"
  shows "(\<forall>b < length h. fst (snd (encode_if_needed predict m h df)) ! b = h ! b) \<and>
         (predict m (h ! df) = (ma, t, Inl e) \<and> fallback_encoding (h ! df) = (enc, None) \<and>
          predict ma enc = (mb, enc', Inr (y # ys)) \<longrightarrow>
            main_submitted predict m h df =
              (mb, h @ [t, enc'], [Success y, ShowDataframe (h ! df), ShowDataframe enc'])) \<and>
         (predict m (h ! df) = (ma, t, Inr zs) \<and>
          predict ma (h ! df) = (mb, h ! df, Inr (y # ys)) \<longrightarrow>
            main_submitted predict m h df =
              (mb, h @ [t], [Success y, ShowDataframe (h ! df), ShowDataframe (h ! df)]))"
proof (intro conjI allI impI)
  fix b assume b: "b < length h"
  obtain m' t' r where p: "predict m (h ! df) = (m', t', r)"
    by (cases "predict m (h ! df)") auto
  show "fst (snd (encode_if_needed predict m h df)) ! b = h ! b"
  proof (cases r)
    case (Inl e')
    obtain enc0 eo where f: "fallback_encoding (h ! df) = (enc0, eo)"
      by (cases "fallback_encoding (h ! df)") auto
    from encode_if_needed_fallback [where predict = predict and m = m, OF assms p [unfolded Inl]]
    show ?thesis
      using b by (cases eo) (simp_all add: f nth_append)
  next
    case (Inr ys')
    from encode_if_needed_direct [where predict = predict and m = m, OF assms p [unfolded Inr]]
    show ?thesis
      using b by (simp add: nth_append)
  qed
next
  assume "predict m (h ! df) = (ma, t, Inl e) \<and> fallback_encoding (h ! df) = (enc, None) \<and>
          predict ma enc = (mb, enc', Inr (y # ys))"
  then show "main_submitted predict m h df =
      (mb, h @ [t, enc'], [Success y, ShowDataframe (h ! df), ShowDataframe enc'])"
    using main_submitted_fallback [where predict = predict and m = m and r = "Inr (y # ys)",
        OF assms]
    by simp
next
  assume "predict m (h ! df) = (ma, t, Inr zs) \<and>
          predict ma (h ! df) = (mb, h ! df, Inr (y # ys))"
  then show "main_submitted predict m h df =
      (mb, h @ [t], [Success y, ShowDataframe (h ! df), ShowDataframe (h ! df)])"
    using main_submitted_direct [where predict = predict and m = m and r = "Inr (y # ys)",
        OF assms]
    by simp
qed

text \<open>
  The amended C10 on the scenario's record: with a predictor that accepts only numeric
  tables (the fallback runs) and with one that accepts every table and writes to none.
\<close>

theorem encode_if_needed_leaves_input_witness:
  "fst (snd (encode_if_needed numeric_only_model 0 [scenario_df] 0)) ! 0 = scenario_df \<and>
   main_submitted numeric_only_model 0 [scenario_df] 0 =
     (2, [scenario_df, scenario_df, scenario_encoded],
      [Success 4.25, ShowDataframe scenario_df, ShowDataframe scenario_encoded]) \<and>
   fst (snd (encode_if_needed accepting_model 0 [scenario_df] 0)) ! 0 = scenario_df \<and>
   main_submitted accepting_model 0 [scenario_df] 0 =
     (2, [scenario_df, scenario_df],
      [Success 3.5, ShowDataframe scenario_df, ShowDataframe scenario_df])"
proof -
  have first: "numeric_only_model 0 ([scenario_df] ! 0) =
      (1, scenario_df, Inl (Exc ''ValueError'' ''could not convert string to float''))"
    by (simp add: numeric_only_model_def scenario_df_def DataFrame_data)
  have second: "numeric_only_model 1 scenario_encoded = (2, scenario_encoded, Inr [4.25])"
    by (simp add: numeric_only_model_def scenario_encoded_def)
  have enc: "fallback_encoding ([scenario_df] ! 0) = (scenario_encoded, None)"
    by (simp add: fallback_encoding_scenario)
  have "fst (snd (encode_if_needed numeric_only_model 0 [scenario_df] 0)) ! 0 = scenario_df \<and>
    main_submitted numeric_only_model 0 [scenario_df] 0 =
     (2, [scenario_df, scenario_df, scenario_encoded],
      [Success 4.25, ShowDataframe scenario_df, ShowDataframe scenario_encoded])"
    using encode_if_needed_leaves_input
      [where predict = numeric_only_model and m = 0 and h = "[scenario_df]" and df = 0
         and ma = 1 and t = scenario_df and enc = scenario_encoded and mb = 2
         and enc' = scenario_encoded and y = "4.25" and ys = "[]"
         and e = "Exc ''ValueError'' ''could not convert string to float''"]
      first second enc
    by simp
  moreover
  have "fst (snd (encode_if_needed accepting_model 0 [scenario_df] 0)) ! 0 = scenario_df \<and>
    main_submitted accepting_model 0 [scenario_df] 0 =
     (2, [scenario_df, scenario_df],
      [Success 3.5, ShowDataframe scenario_df, ShowDataframe scenario_df])"
    using encode_if_needed_leaves_input
      [where predict = accepting_model and m = 0 and h = "[scenario_df]" and df = 0
         and ma = 1 and t = scenario_df and mb = 2 and y = "3.5" and ys = "[]" and zs = "[3.5]"]
    by (simp add: accepting_model_def)
  ultimately show ?thesis
    by simp
qed

end
